theory Spec2Isabelle
  imports Main "HOL-Library.Multiset"
begin

section \<open>Values, errors and the rule registry\<close>

text \<open>
  The program is \<^verbatim>\<open>src/cronjob/ineo_labeling/ineo_labeling.py\<close>. An index document is a
  Python dict decoded from JSON. The field values that reach the resolver are modelled by
  the scalar JSON kinds \<^verbatim>\<open>None\<close>, \<^verbatim>\<open>bool\<close>, \<^verbatim>\<open>int\<close> and \<^verbatim>\<open>str\<close>; floats, arrays and
  objects are left out of the model. A Python name with a leading underscore is written with
  the prefix \<open>priv_\<close>, since an Isabelle name starts with a letter.
\<close>

datatype pyval = PyNone | PyBool bool | PyInt int | PyStr string

text \<open>The exceptions the modelled functions can raise.\<close>

datatype error = ValueError | TypeError | KeyError | AttributeError | HTTPError

type_synonym doc = "string \<rightharpoonup> pyval"

text \<open>\<^verbatim>\<open>doc.get(key, None)\<close>: an absent key and a key bound to \<^verbatim>\<open>None\<close> both give \<^verbatim>\<open>None\<close>.\<close>

definition dict_get :: "doc \<Rightarrow> string \<Rightarrow> pyval" where
  "dict_get d k = (case d k of None \<Rightarrow> PyNone | Some v \<Rightarrow> v)"

text \<open>
  Python's \<^verbatim>\<open>==\<close> on these values: \<^verbatim>\<open>bool\<close> is a subtype of \<^verbatim>\<open>int\<close>
  (\<^verbatim>\<open>True == 1\<close>), a string never equals a number, and \<^verbatim>\<open>None\<close> equals only itself.
\<close>

fun py_eq :: "pyval \<Rightarrow> pyval \<Rightarrow> bool" where
  "py_eq PyNone PyNone = True"
| "py_eq (PyBool a) (PyBool b) = (a = b)"
| "py_eq (PyBool a) (PyInt j) = ((if a then 1 else 0) = j)"
| "py_eq (PyInt i) (PyBool b) = (i = (if b then 1 else 0))"
| "py_eq (PyInt i) (PyInt j) = (i = j)"
| "py_eq (PyStr s) (PyStr t) = (s = t)"
| "py_eq _ _ = False"

text \<open>
  The classes \<^verbatim>\<open>Provider\<close> and \<^verbatim>\<open>Providers\<close> come from the module \<^verbatim>\<open>ineo_classes\<close>, which
  is not among the sources; their fields are the ones \<^verbatim>\<open>_add_provider\<close>,
  \<^verbatim>\<open>parse_mapping_file\<close> and \<^verbatim>\<open>_is_ineo_record\<close> write and read. The field \<^verbatim>\<open>default\<close> of
  both classes is written \<open>rule_default\<close> and \<open>global_default\<close>. A rule's name and
  profile are strings or \<^verbatim>\<open>None\<close>, its level is an \<^verbatim>\<open>int\<close> or \<^verbatim>\<open>None\<close>, its default is
  \<^verbatim>\<open>True\<close>, \<^verbatim>\<open>False\<close> or \<^verbatim>\<open>None\<close>; \<^verbatim>\<open>parse_mapping_file\<close> always leaves a boolean in the
  registry's default.
\<close>

record Provider =
  name :: "string option"
  profile :: "string option"
  level :: "int option"
  rule_default :: "bool option"

record Providers =
  providers :: "Provider list"
  provider_keys :: "string option list"
  global_default :: bool

definition str_val :: "string option \<Rightarrow> pyval" where
  "str_val s = (case s of None \<Rightarrow> PyNone | Some t \<Rightarrow> PyStr t)"

definition int_val :: "int option \<Rightarrow> pyval" where
  "int_val i = (case i of None \<Rightarrow> PyNone | Some j \<Rightarrow> PyInt j)"

text \<open>\<^verbatim>\<open>x in keys\<close> on a list: some element is equal to \<open>x\<close>.\<close>

definition py_in :: "pyval \<Rightarrow> string option list \<Rightarrow> bool" where
  "py_in x keys = list_ex (\<lambda>k. py_eq x (str_val k)) keys"

text \<open>
  Modelled from the spec: the method \<^verbatim>\<open>Providers.get_provider\<close> of \<^verbatim>\<open>ineo_classes\<close> is
  missing from the sources. The spec (4.2) gives the lookup: it returns the first rule whose
  name equals the argument, else null.
\<close>

definition get_provider :: "Providers \<Rightarrow> pyval \<Rightarrow> Provider option" where
  "get_provider mapping x = find (\<lambda>r. py_eq x (str_val (name r))) (providers mapping)"

section \<open>The resolver\<close>

text \<open>
  \<^verbatim>\<open>_is_ineo_record(doc, mapping)\<close>, lines 170-203. The raise of line 179 is the
  \<open>ValueError\<close> branch. The attribute reads \<^verbatim>\<open>mapping.get_provider(provider_name).profile\<close>
  (first at line 183) raise \<^verbatim>\<open>AttributeError\<close> when the lookup gives \<^verbatim>\<open>None\<close>. Both guards
  test the record-side value twice, as lines 186 and 191 do. Logging is not modelled.
\<close>

definition priv_is_ineo_record :: "doc \<Rightarrow> Providers \<Rightarrow> error + bool" where
  "priv_is_ineo_record doc mapping =
    (let provider_name = dict_get doc ''dataProvider'';
         provider_profile = dict_get doc ''_componentProfileId'';
         provider_level = dict_get doc ''_hierarchyWeight''
     in if provider_name = PyNone then Inl ValueError
        else if py_in provider_name (provider_keys mapping) then
          (case get_provider mapping provider_name of
             None \<Rightarrow> Inl AttributeError
           | Some rule \<Rightarrow>
               if provider_profile \<noteq> PyNone \<and> provider_profile \<noteq> PyNone
                    \<and> py_eq provider_profile (str_val (profile rule))
               then Inr True
               else if provider_level \<noteq> PyNone \<and> provider_level \<noteq> PyNone
                    \<and> py_eq provider_level (int_val (level rule))
               then Inr True
               else (case rule_default rule of
                       Some d \<Rightarrow> Inr d
                     | None \<Rightarrow> Inr False))
        else Inr (global_default mapping))"

text \<open>
  A registry is consistent when its key list is the list of its rules' names, position by
  position: \<^verbatim>\<open>_add_provider\<close> appends to both lists together.
\<close>

definition consistent :: "Providers \<Rightarrow> bool" where
  "consistent mapping = (provider_keys mapping = map name (providers mapping))"

text \<open>
  The same resolver with the rule-side tests the spec's steps 4a and 4b ask for (the rule's
  value is non-null and the record's value is non-null and they are equal), under the same
  equality \<open>py_eq\<close>. It is not part of the program; it is what the program is compared
  with.
\<close>

definition guarded_is_ineo_record :: "doc \<Rightarrow> Providers \<Rightarrow> error + bool" where
  "guarded_is_ineo_record doc mapping =
    (let provider_name = dict_get doc ''dataProvider'';
         provider_profile = dict_get doc ''_componentProfileId'';
         provider_level = dict_get doc ''_hierarchyWeight''
     in if provider_name = PyNone then Inl ValueError
        else if py_in provider_name (provider_keys mapping) then
          (case get_provider mapping provider_name of
             None \<Rightarrow> Inl AttributeError
           | Some rule \<Rightarrow>
               if profile rule \<noteq> None \<and> provider_profile \<noteq> PyNone
                    \<and> py_eq provider_profile (str_val (profile rule))
               then Inr True
               else if level rule \<noteq> None \<and> provider_level \<noteq> PyNone
                    \<and> py_eq provider_level (int_val (level rule))
               then Inr True
               else (case rule_default rule of
                       Some d \<Rightarrow> Inr d
                     | None \<Rightarrow> Inr False))
        else Inr (global_default mapping))"

section \<open>The labeling pass\<close>

text \<open>
  One entry of the update batch, \<^verbatim>\<open>{"id": doc["id"], "ineo_record": {"set": ineo_record}}\<close>.
\<close>

record update_doc =
  upd_id :: pyval
  ineo_record_set :: bool

text \<open>
  The loop of \<^verbatim>\<open>_label_ineo_records\<close>, lines 213-225, with its three locals \<^verbatim>\<open>good\<close>,
  \<^verbatim>\<open>bad\<close> and \<^verbatim>\<open>payload\<close>. \<^verbatim>\<open>doc['id']\<close> (line 214) raises \<^verbatim>\<open>KeyError\<close> on a document
  without the key. The call of line 215 stands in no \<^verbatim>\<open>try\<close>: what the resolver raises
  leaves the loop and the function.
\<close>

fun label_loop ::
  "doc list \<Rightarrow> Providers \<Rightarrow> nat \<Rightarrow> nat \<Rightarrow> update_doc list \<Rightarrow> error + update_doc list" where
  "label_loop [] mapping good bad payload = Inr payload"
| "label_loop (doc # rest) mapping good bad payload =
    (case doc ''id'' of
       None \<Rightarrow> Inl KeyError
     | Some i \<Rightarrow>
        (case priv_is_ineo_record doc mapping of
           Inl e \<Rightarrow> Inl e
         | Inr ineo_record \<Rightarrow>
             label_loop rest mapping
               (if ineo_record then good + 1 else good)
               (if ineo_record then bad else bad + 1)
               (payload @ [\<lparr>upd_id = i, ineo_record_set = ineo_record\<rparr>])))"

definition priv_label_ineo_records :: "doc list \<Rightarrow> Providers \<Rightarrow> error + update_doc list" where
  "priv_label_ineo_records docs mapping = label_loop docs mapping 0 0 []"

section \<open>Reading from and writing to the index\<close>

text \<open>
  The index is outside the program. A read is a function from \<^verbatim>\<open>start\<close> and \<^verbatim>\<open>rows\<close> to what
  \<^verbatim>\<open>_fetch_solr_records\<close> gives back: the \<^verbatim>\<open>"response"\<close> object of the answer, or the exception
  of \<^verbatim>\<open>raise_for_status\<close>. The query, the URL and the credentials are the same in every call
  and are left out.
\<close>

record solr_response =
  numFound :: int
  docs :: "doc list"

type_synonym solr = "int \<Rightarrow> int \<Rightarrow> error + solr_response"

definition priv_fetch_solr_records :: "solr \<Rightarrow> int \<Rightarrow> int \<Rightarrow> error + solr_response" where
  "priv_fetch_solr_records index start rows = index start rows"

text \<open>\<^verbatim>\<open>range(start, stop, step)\<close> for the positive step the program uses.\<close>

function range_from :: "int \<Rightarrow> int \<Rightarrow> int \<Rightarrow> int list" where
  "range_from i stop step =
    (if 0 < step \<and> i < stop then i # range_from (i + step) stop step else [])"
  by pat_completeness auto
termination
  by (relation "measure (\<lambda>(i, stop, step). nat (stop - i))") auto

declare range_from.simps [simp del]

text \<open>
  The loop of lines 153-154 over the futures in the order they complete:
  \<^verbatim>\<open>future.result()\<close> re-raises what the page request raised.
\<close>

fun extend_all :: "(error + solr_response) list \<Rightarrow> doc list \<Rightarrow> error + doc list" where
  "extend_all [] records = Inr records"
| "extend_all (future # rest) records =
    (case future of
       Inl e \<Rightarrow> Inl e
     | Inr response \<Rightarrow> extend_all rest (records @ docs response))"

text \<open>
  \<^verbatim>\<open>fetch_solr_records\<close>, lines 134-155. The result is the list of read requests issued, as
  pairs \<open>(start, rows)\<close> in the order of submission, and what the function returns or
  raises. Every page request is submitted before the first result is read, so the requests
  do not depend on how the pages fare. \<open>as_completed\<close> is the order in which the pool
  finishes the futures.
\<close>

definition fetch_solr_records ::
  "solr \<Rightarrow> ((error + solr_response) list \<Rightarrow> (error + solr_response) list)
    \<Rightarrow> (int \<times> int) list \<times> (error + doc list)" where
  "fetch_solr_records index as_completed =
    (case priv_fetch_solr_records index 0 0 of
       Inl e \<Rightarrow> ([(0, 0)], Inl e)
     | Inr response \<Rightarrow>
        (let total_records = numFound response;
             starts = range_from 0 total_records 10000;
             futures = map (\<lambda>start. priv_fetch_solr_records index start 10000) starts
         in ((0, 0) # map (\<lambda>start. (start, 10000)) starts,
             extend_all (as_completed futures) [])))"

text \<open>
  An index that holds the documents \<open>held\<close> and answers every read with its full slice.
\<close>

definition full_slice :: "doc list \<Rightarrow> solr" where
  "full_slice held start rows =
    Inr \<lparr>numFound = int (length held), docs = take (nat rows) (drop (nat start) held)\<rparr>"

text \<open>
  \<^verbatim>\<open>update_solr_records\<close>, lines 158-167: \<open>post doc\<close> tells whether the index answers the
  update of \<open>doc\<close> with a success status; otherwise \<^verbatim>\<open>raise_for_status\<close> raises.
\<close>

definition update_solr_records :: "(update_doc \<Rightarrow> bool) \<Rightarrow> update_doc \<Rightarrow> error + unit" where
  "update_solr_records post doc = (if post doc then Inr () else Inl HTTPError)"

text \<open>
  \<^verbatim>\<open>executor.map(fn, args)\<close> submits one call per argument at once and keeps each call's
  outcome, a value or an exception, in its future.
\<close>

definition executor_map :: "('a \<Rightarrow> error + 'b) \<Rightarrow> 'a list \<Rightarrow> (error + 'b) list" where
  "executor_map fn args = map fn args"

text \<open>
  \<^verbatim>\<open>label_ineo_records\<close>, lines 230-241. The result is the list of updates submitted to the
  pool and what the function returns or raises. The iterator \<^verbatim>\<open>executor.map\<close> returns is
  bound to no name and never read (line 241); leaving the \<^verbatim>\<open>with\<close> block waits for every
  submitted call, and the function returns \<^verbatim>\<open>None\<close>.
\<close>

definition label_ineo_records ::
  "solr \<Rightarrow> ((error + solr_response) list \<Rightarrow> (error + solr_response) list)
    \<Rightarrow> (update_doc \<Rightarrow> bool) \<Rightarrow> Providers \<Rightarrow> update_doc list \<times> (error + unit)" where
  "label_ineo_records index as_completed post mapping =
    (case snd (fetch_solr_records index as_completed) of
       Inl e \<Rightarrow> ([], Inl e)
     | Inr fetched \<Rightarrow>
        (case priv_label_ineo_records fetched mapping of
           Inl e \<Rightarrow> ([], Inl e)
         | Inr update_docs \<Rightarrow>
            (let args = update_docs;
                 outcomes = executor_map (update_solr_records post) args
             in (args, Inr ()))))"

section \<open>The mapping document\<close>

text \<open>
  An \<^verbatim>\<open>ElementTree\<close> element: tag, attributes, text (\<^verbatim>\<open>None\<close> for an element without
  text) and children in document order.
\<close>

datatype element =
  Element (tag: string) (attrib: "string \<rightharpoonup> string") (elem_text: "string option")
    (children: "element list")

text \<open>\<^verbatim>\<open>e.findall(t)\<close> and \<^verbatim>\<open>e.find(t)\<close> with a plain tag: the direct children with that tag.\<close>

definition findall :: "element \<Rightarrow> string \<Rightarrow> element list" where
  "findall e t = filter (\<lambda>c. tag c = t) (children e)"

definition find_elem :: "element \<Rightarrow> string \<Rightarrow> element option" where
  "find_elem e t = find (\<lambda>c. tag c = t) (children e)"

text \<open>\<^verbatim>\<open>xs or ys\<close> on lists: the first list unless it is empty.\<close>

definition py_or :: "'a list \<Rightarrow> 'a list \<Rightarrow> 'a list" where
  "py_or xs ys = (if xs \<noteq> [] then xs else ys)"

text \<open>
  \<^verbatim>\<open>int(text)\<close>: \<^verbatim>\<open>TypeError\<close> on \<^verbatim>\<open>None\<close> (an element without text), \<^verbatim>\<open>ValueError\<close> on a
  string that is no integer literal. Which strings Python reads as integers is the parameter
  \<open>int_of\<close>.
\<close>

definition py_int :: "(string \<Rightarrow> int option) \<Rightarrow> string option \<Rightarrow> error + int" where
  "py_int int_of t =
    (case t of
       None \<Rightarrow> Inl TypeError
     | Some s \<Rightarrow> (case int_of s of None \<Rightarrow> Inl ValueError | Some i \<Rightarrow> Inr i))"

text \<open>\<^verbatim>\<open>_add_provider\<close>, lines 51-84; the registry it appends to is returned.\<close>

definition priv_add_provider ::
  "(string \<Rightarrow> int option) \<Rightarrow> Providers \<Rightarrow> element \<Rightarrow> error + Providers" where
  "priv_add_provider int_of registry provider =
    (let provider_name = attrib provider ''name'';
         provider_profile =
           (case find_elem provider ''profile'' of
              None \<Rightarrow> None
            | Some profile_node \<Rightarrow> elem_text profile_node)
     in case (case find_elem provider ''level'' of
                None \<Rightarrow> Inr None
              | Some level_node \<Rightarrow>
                  (case py_int int_of (elem_text level_node) of
                     Inl e \<Rightarrow> Inl e
                   | Inr i \<Rightarrow> Inr (Some i))) of
          Inl e \<Rightarrow> Inl e
        | Inr provider_level \<Rightarrow>
           (let provider_default =
                  (case find_elem provider ''default'' of
                     None \<Rightarrow> None
                   | Some default_node \<Rightarrow> Some (elem_text default_node = Some ''true''));
                provider_obj =
                  \<lparr>name = provider_name, profile = provider_profile,
                   level = provider_level, rule_default = provider_default\<rparr>
            in Inr (registry
                 \<lparr>providers := providers registry @ [provider_obj],
                  provider_keys := provider_keys registry @ [provider_name]\<rparr>)))"

text \<open>The loops of lines 110-111 and 113-114.\<close>

fun add_all ::
  "(string \<Rightarrow> int option) \<Rightarrow> Providers \<Rightarrow> element list \<Rightarrow> error + Providers" where
  "add_all int_of registry [] = Inr registry"
| "add_all int_of registry (provider # rest) =
    (case priv_add_provider int_of registry provider of
       Inl e \<Rightarrow> Inl e
     | Inr registry' \<Rightarrow> add_all int_of registry' rest)"

text \<open>
  The loop of lines 101-108. It assigns the locals \<^verbatim>\<open>provider_name\<close> and
  \<^verbatim>\<open>provider_profile\<close>, the state of the loop here, and nothing else.
\<close>

fun scan_loop ::
  "element list \<Rightarrow> string option \<times> string option \<Rightarrow> string option \<times> string option" where
  "scan_loop [] locals = locals"
| "scan_loop (provider # rest) locals =
    scan_loop rest
      (attrib provider ''name'',
       (case find_elem provider ''profile'' of
          None \<Rightarrow> None
        | Some profile_node \<Rightarrow> elem_text profile_node))"

text \<open>
  \<^verbatim>\<open>parse_mapping_file\<close>, lines 87-115. \<^verbatim>\<open>Providers()\<close> starts with no rules and no keys
  (\<^verbatim>\<open>_add_provider\<close> appends to both lists), and lines 95-99 set its default before
  anything reads it.
\<close>

definition parse_mapping_file :: "(string \<Rightarrow> int option) \<Rightarrow> element \<Rightarrow> error + Providers" where
  "parse_mapping_file int_of mapping_tree =
    (let registry =
           \<lparr>providers = [], provider_keys = [],
            global_default = (attrib mapping_tree ''default'' = Some ''true'')\<rparr>;
         locals =
           scan_loop
             (py_or (findall mapping_tree ''provider'') (findall mapping_tree ''root''))
             (None, None)
     in case add_all int_of registry (findall mapping_tree ''provider'') of
          Inl e \<Rightarrow> Inl e
        | Inr registry' \<Rightarrow> add_all int_of registry' (findall mapping_tree ''root''))"

text \<open>
  The same function with the loop of lines 101-108 removed. It is not part of the program;
  it is what the program is compared with.
\<close>

definition parse_mapping_file_without_scan ::
  "(string \<Rightarrow> int option) \<Rightarrow> element \<Rightarrow> error + Providers" where
  "parse_mapping_file_without_scan int_of mapping_tree =
    (let registry =
           \<lparr>providers = [], provider_keys = [],
            global_default = (attrib mapping_tree ''default'' = Some ''true'')\<rparr>
     in case add_all int_of registry (findall mapping_tree ''provider'') of
          Inl e \<Rightarrow> Inl e
        | Inr registry' \<Rightarrow> add_all int_of registry' (findall mapping_tree ''root''))"

section \<open>Example data\<close>

text \<open>
  The rules of the spec's scenarios A and C, and a rule with a level and no default; the
  global default is \<^verbatim>\<open>False\<close>.
\<close>

definition example_registry :: Providers where
  "example_registry =
    \<lparr>providers =
       [\<lparr>name = Some ''Acme'', profile = Some ''P1'', level = None, rule_default = None\<rparr>,
        \<lparr>name = Some ''Beta'', profile = None, level = Some 0, rule_default = Some True\<rparr>,
        \<lparr>name = Some ''Gamma'', profile = None, level = Some 0, rule_default = None\<rparr>],
     provider_keys = [Some ''Acme'', Some ''Beta'', Some ''Gamma''],
     global_default = False\<rparr>"

text \<open>A document that has an id and no \<^verbatim>\<open>dataProvider\<close>, and one that has both.\<close>

definition doc_without_provider :: doc where
  "doc_without_provider = [''id'' \<mapsto> PyStr ''a'']"

definition doc_of_beta :: doc where
  "doc_of_beta = [''id'' \<mapsto> PyStr ''b'', ''dataProvider'' \<mapsto> PyStr ''Beta'']"

text \<open>
  A mapping document with a \<open>root\<close> child between two \<open>provider\<close> children, and a
  reading of \<^verbatim>\<open>int\<close> that knows the literal \<^verbatim>\<open>"0"\<close>.
\<close>

definition example_tree :: element where
  "example_tree =
    Element ''datasets'' [''default'' \<mapsto> ''true''] None
      [Element ''provider'' [''name'' \<mapsto> ''Acme''] None
         [Element ''profile'' Map.empty (Some ''P1'') []],
       Element ''root'' [''name'' \<mapsto> ''Partners''] None
         [Element ''default'' Map.empty (Some ''true'') []],
       Element ''provider'' [''name'' \<mapsto> ''Beta''] None
         [Element ''level'' Map.empty (Some ''0'') [],
          Element ''default'' Map.empty (Some ''no'') []]]"

definition example_int_of :: "string \<Rightarrow> int option" where
  "example_int_of s = (if s = ''0'' then Some 0 else None)"

section \<open>Properties of the resolver\<close>

lemma find_holds: "find P xs = Some r \<Longrightarrow> r \<in> set xs \<and> P r"
  by (induction xs) (auto split: if_splits)

lemma py_in_find:
  "py_in x (map name rs) \<Longrightarrow> \<exists>r. find (\<lambda>r. py_eq x (str_val (name r))) rs = Some r"
  by (induction rs) (auto simp: py_in_def)

lemma registered_lookup:
  assumes "consistent mapping" and "py_in x (provider_keys mapping)"
  shows "\<exists>r. get_provider mapping x = Some r"
  using assms py_in_find [of x "providers mapping"]
  by (simp add: consistent_def get_provider_def)

lemma lookup_registered:
  assumes "consistent mapping" and "get_provider mapping x = Some r"
  shows "py_in x (provider_keys mapping)"
proof -
  from assms(2) have "r \<in> set (providers mapping)" and "py_eq x (str_val (name r))"
    by (auto simp: get_provider_def dest: find_holds)
  with assms(1) show ?thesis
    by (auto simp: consistent_def py_in_def list_ex_iff)
qed

lemma py_eq_None_right: "x \<noteq> PyNone \<Longrightarrow> \<not> py_eq x PyNone"
  by (cases x) simp_all

lemma py_eq_str_int: "\<not> py_eq (PyStr s) (int_val l)"
  by (cases l) (simp_all add: int_val_def)

lemma is_ineo_record_missing:
  "dict_get doc ''dataProvider'' = PyNone \<Longrightarrow> priv_is_ineo_record doc mapping = Inl ValueError"
  by (simp add: priv_is_ineo_record_def)

text \<open>What the resolver returns once the provider is present and registered with a rule.\<close>

lemma is_ineo_record_rule:
  assumes "dict_get doc ''dataProvider'' \<noteq> PyNone"
    and "py_in (dict_get doc ''dataProvider'') (provider_keys mapping)"
    and "get_provider mapping (dict_get doc ''dataProvider'') = Some rule"
  shows "priv_is_ineo_record doc mapping =
    (if dict_get doc ''_componentProfileId'' \<noteq> PyNone
          \<and> py_eq (dict_get doc ''_componentProfileId'') (str_val (profile rule))
     then Inr True
     else if dict_get doc ''_hierarchyWeight'' \<noteq> PyNone
          \<and> py_eq (dict_get doc ''_hierarchyWeight'') (int_val (level rule))
     then Inr True
     else (case rule_default rule of Some d \<Rightarrow> Inr d | None \<Rightarrow> Inr False))"
  using assms by (simp add: priv_is_ineo_record_def Let_def)

lemma is_ineo_record_present:
  assumes "consistent mapping" and "dict_get doc ''dataProvider'' \<noteq> PyNone"
  shows "\<exists>b. priv_is_ineo_record doc mapping = Inr b"
proof (cases "py_in (dict_get doc ''dataProvider'') (provider_keys mapping)")
  case True
  with assms(1) obtain r where "get_provider mapping (dict_get doc ''dataProvider'') = Some r"
    using registered_lookup by blast
  from is_ineo_record_rule [OF assms(2) True this] show ?thesis
    by (auto split: option.splits)
next
  case False
  with assms(2) show ?thesis by (simp add: priv_is_ineo_record_def)
qed

text \<open>The example registry is consistent, and its three rules are found by name.\<close>

lemma example_consistent: "consistent example_registry"
  by (simp add: consistent_def example_registry_def)

lemma example_acme:
  "get_provider example_registry (PyStr ''Acme'') =
     Some \<lparr>name = Some ''Acme'', profile = Some ''P1'', level = None, rule_default = None\<rparr>"
  by (simp add: get_provider_def example_registry_def str_val_def)

lemma example_beta:
  "get_provider example_registry (PyStr ''Beta'') =
     Some \<lparr>name = Some ''Beta'', profile = None, level = Some 0, rule_default = Some True\<rparr>"
  by (simp add: get_provider_def example_registry_def str_val_def)

lemma example_gamma:
  "get_provider example_registry (PyStr ''Gamma'') =
     Some \<lparr>name = Some ''Gamma'', profile = None, level = Some 0, rule_default = None\<rparr>"
  by (simp add: get_provider_def example_registry_def str_val_def)

text \<open>
  C4. A record whose provider is present and names a rule of a consistent registry, the
  rule's profile being a string equal to the record's \<^verbatim>\<open>_componentProfileId\<close>, resolves to
  \<^verbatim>\<open>True\<close>, whatever the rule's level and default and the global default are.
\<close>

theorem C4_profile_match:
  assumes "consistent mapping"
    and "dict_get doc ''dataProvider'' \<noteq> PyNone"
    and "get_provider mapping (dict_get doc ''dataProvider'') = Some rule"
    and "profile rule = Some p"
    and "dict_get doc ''_componentProfileId'' = PyStr p"
  shows "priv_is_ineo_record doc mapping = Inr True"
proof -
  from assms(1,3) have "py_in (dict_get doc ''dataProvider'') (provider_keys mapping)"
    by (rule lookup_registered)
  from is_ineo_record_rule [OF assms(2) this assms(3)] assms(4,5) show ?thesis
    by (simp add: str_val_def)
qed

theorem C4_profile_match_witness:
  "priv_is_ineo_record
     [''dataProvider'' \<mapsto> PyStr ''Acme'', ''_componentProfileId'' \<mapsto> PyStr ''P1'']
     example_registry = Inr True"
  using C4_profile_match [OF example_consistent, of
      "[''dataProvider'' \<mapsto> PyStr ''Acme'', ''_componentProfileId'' \<mapsto> PyStr ''P1'']"
      _ "''P1''"]
  by (simp add: dict_get_def example_acme)

text \<open>
  C5. A record whose provider is present and names a rule of a consistent registry, and for
  which neither the profile test nor the level test of the resolver holds, resolves to the
  rule's default when the rule has one (\<^verbatim>\<open>True\<close> or \<^verbatim>\<open>False\<close>), and to \<^verbatim>\<open>False\<close> when the rule
  has none. The tests are the program's: the value is not \<^verbatim>\<open>None\<close> and equals the rule's.
\<close>

theorem C5_rule_default:
  assumes "consistent mapping"
    and "dict_get doc ''dataProvider'' \<noteq> PyNone"
    and "get_provider mapping (dict_get doc ''dataProvider'') = Some rule"
    and "\<not> (dict_get doc ''_componentProfileId'' \<noteq> PyNone
            \<and> py_eq (dict_get doc ''_componentProfileId'') (str_val (profile rule)))"
    and "\<not> (dict_get doc ''_hierarchyWeight'' \<noteq> PyNone
            \<and> py_eq (dict_get doc ''_hierarchyWeight'') (int_val (level rule)))"
  shows "priv_is_ineo_record doc mapping =
           Inr (case rule_default rule of Some D \<Rightarrow> D | None \<Rightarrow> False)"
proof -
  from assms(1,3) have "py_in (dict_get doc ''dataProvider'') (provider_keys mapping)"
    by (rule lookup_registered)
  from is_ineo_record_rule [OF assms(2) this assms(3)] assms(4,5) show ?thesis
    by (auto split: option.splits)
qed

theorem C5_rule_default_witness:
  "priv_is_ineo_record
     [''dataProvider'' \<mapsto> PyStr ''Beta'', ''_hierarchyWeight'' \<mapsto> PyInt 5]
     example_registry = Inr True
   \<and> priv_is_ineo_record
     [''dataProvider'' \<mapsto> PyStr ''Acme'', ''_componentProfileId'' \<mapsto> PyStr ''P2'']
     example_registry = Inr False"
  using
    C5_rule_default [OF example_consistent, of
      "[''dataProvider'' \<mapsto> PyStr ''Beta'', ''_hierarchyWeight'' \<mapsto> PyInt 5]"]
    C5_rule_default [OF example_consistent, of
      "[''dataProvider'' \<mapsto> PyStr ''Acme'', ''_componentProfileId'' \<mapsto> PyStr ''P2'']"]
  by (simp add: dict_get_def example_acme example_beta str_val_def int_val_def)

text \<open>
  C6. A record whose provider is present and is not among the registry's keys resolves to
  the global default, whatever its \<^verbatim>\<open>_componentProfileId\<close> and \<^verbatim>\<open>_hierarchyWeight\<close> are.
\<close>

theorem C6_global_default:
  assumes "dict_get doc ''dataProvider'' \<noteq> PyNone"
    and "\<not> py_in (dict_get doc ''dataProvider'') (provider_keys mapping)"
  shows "priv_is_ineo_record doc mapping = Inr (global_default mapping)"
  using assms by (simp add: priv_is_ineo_record_def)

theorem C6_global_default_witness:
  "priv_is_ineo_record
     [''dataProvider'' \<mapsto> PyStr ''Unknown'', ''_componentProfileId'' \<mapsto> PyStr ''P1'',
      ''_hierarchyWeight'' \<mapsto> PyInt 0]
     (example_registry\<lparr>global_default := True\<rparr>) = Inr True"
  using C6_global_default [of
      "[''dataProvider'' \<mapsto> PyStr ''Unknown'', ''_componentProfileId'' \<mapsto> PyStr ''P1'',
        ''_hierarchyWeight'' \<mapsto> PyInt 0]"
      "example_registry\<lparr>global_default := True\<rparr>"]
  by (simp add: dict_get_def example_registry_def py_in_def str_val_def)

text \<open>
  C7. On a consistent registry, the resolver raises exactly when the record's
  \<^verbatim>\<open>dataProvider\<close> is \<^verbatim>\<open>None\<close> or absent: then it raises the \<^verbatim>\<open>ValueError\<close> of line 179 and
  returns nothing, and otherwise it returns a boolean and raises nothing.
\<close>

theorem C7_raises_iff_missing:
  assumes "consistent mapping"
  shows "(dict_get doc ''dataProvider'' = PyNone
            \<longrightarrow> priv_is_ineo_record doc mapping = Inl ValueError)
       \<and> (dict_get doc ''dataProvider'' \<noteq> PyNone
            \<longrightarrow> (\<exists>b. priv_is_ineo_record doc mapping = Inr b))"
  using assms by (simp add: is_ineo_record_missing is_ineo_record_present)

theorem C7_raises_iff_missing_witness:
  "priv_is_ineo_record doc_without_provider example_registry = Inl ValueError
   \<and> (\<exists>b. priv_is_ineo_record doc_of_beta example_registry = Inr b)"
  using
    C7_raises_iff_missing [OF example_consistent, of doc_without_provider]
    C7_raises_iff_missing [OF example_consistent, of doc_of_beta]
  by (simp add: dict_get_def doc_without_provider_def doc_of_beta_def)

text \<open>
  C10. The resolver, whose guards test the record-side value twice and the rule-side value
  never, computes the same function as the resolver with the rule-side tests added: a value
  that is not \<^verbatim>\<open>None\<close> never equals the \<^verbatim>\<open>None\<close> of a rule without profile or level.
\<close>

theorem C10_rule_side_guards_redundant:
  "priv_is_ineo_record doc mapping = guarded_is_ineo_record doc mapping"
  by (auto simp: priv_is_ineo_record_def guarded_is_ineo_record_def Let_def str_val_def
        int_val_def py_eq_None_right split: option.splits)

text \<open>
  C1, as amended. For a record whose provider is present and names a rule of a consistent
  registry, the rule having a level: when the record's \<^verbatim>\<open>_hierarchyWeight\<close> is that integer,
  the resolver returns \<^verbatim>\<open>True\<close>. A \<^verbatim>\<open>_hierarchyWeight\<close> that is a string equals no rule
  level: the record resolves as the same record without \<^verbatim>\<open>_hierarchyWeight\<close> does.
\<close>

theorem C1_level_match_integer:
  assumes "consistent mapping"
    and "dict_get doc ''dataProvider'' \<noteq> PyNone"
    and "get_provider mapping (dict_get doc ''dataProvider'') = Some rule"
    and "level rule = Some l"
  shows "(dict_get doc ''_hierarchyWeight'' = PyInt l
            \<longrightarrow> priv_is_ineo_record doc mapping = Inr True)
       \<and> (\<forall>s. dict_get doc ''_hierarchyWeight'' = PyStr s
            \<longrightarrow> priv_is_ineo_record doc mapping
                = priv_is_ineo_record (doc(''_hierarchyWeight'' := None)) mapping)"
proof (intro conjI allI impI)
  assume weight: "dict_get doc ''_hierarchyWeight'' = PyInt l"
  from assms(1,3) have "py_in (dict_get doc ''dataProvider'') (provider_keys mapping)"
    by (rule lookup_registered)
  from is_ineo_record_rule [OF assms(2) this assms(3)] weight assms(4)
  show "priv_is_ineo_record doc mapping = Inr True"
    by (simp add: int_val_def)
next
  fix s
  assume "dict_get doc ''_hierarchyWeight'' = PyStr s"
  then show "priv_is_ineo_record doc mapping
               = priv_is_ineo_record (doc(''_hierarchyWeight'' := None)) mapping"
    by (simp add: priv_is_ineo_record_def dict_get_def Let_def py_eq_str_int
          split: option.splits)
qed

theorem C1_level_match_integer_witness:
  "priv_is_ineo_record
     [''dataProvider'' \<mapsto> PyStr ''Gamma'', ''_hierarchyWeight'' \<mapsto> PyInt 0]
     example_registry = Inr True
   \<and> priv_is_ineo_record
     [''dataProvider'' \<mapsto> PyStr ''Gamma'', ''_hierarchyWeight'' \<mapsto> PyStr ''0'']
     example_registry
     = priv_is_ineo_record
         ([''dataProvider'' \<mapsto> PyStr ''Gamma'', ''_hierarchyWeight'' \<mapsto> PyStr ''0'']
            (''_hierarchyWeight'' := None))
         example_registry"
  using
    C1_level_match_integer [OF example_consistent, of
      "[''dataProvider'' \<mapsto> PyStr ''Gamma'', ''_hierarchyWeight'' \<mapsto> PyInt 0]" _ 0]
    C1_level_match_integer [OF example_consistent, of
      "[''dataProvider'' \<mapsto> PyStr ''Gamma'', ''_hierarchyWeight'' \<mapsto> PyStr ''0'']" _ 0]
  by (simp add: dict_get_def example_gamma)

text \<open>
  C1 as stated fails: the rule \<open>Gamma\<close> has level 0 and no default, the record's
  \<^verbatim>\<open>_hierarchyWeight\<close> is the string \<^verbatim>\<open>"0"\<close>, and the resolver returns \<^verbatim>\<open>False\<close>.
\<close>

theorem C1_string_level_counterexample:
  "priv_is_ineo_record
     [''dataProvider'' \<mapsto> PyStr ''Gamma'', ''_hierarchyWeight'' \<mapsto> PyStr ''0'']
     example_registry = Inr False"
  by (simp add: priv_is_ineo_record_def dict_get_def py_in_def get_provider_def
        example_registry_def str_val_def int_val_def)

section \<open>Properties of the labeling pass\<close>

lemma label_loop_raises:
  assumes "d \<in> set ds" and "dict_get d ''dataProvider'' = PyNone"
  shows "\<exists>e. label_loop ds mapping good bad payload = Inl e"
  using assms
proof (induction ds arbitrary: good bad payload)
  case Nil
  then show ?case by simp
next
  case (Cons a ds)
  show ?case
  proof (cases "a ''id''")
    case None
    then show ?thesis by simp
  next
    case (Some i)
    show ?thesis
    proof (cases "priv_is_ineo_record a mapping")
      case (Inl e)
      with Some show ?thesis by simp
    next
      case (Inr b)
      have "d \<noteq> a"
      proof
        assume "d = a"
        with Cons.prems(2) have "priv_is_ineo_record a mapping = Inl ValueError"
          by (simp add: is_ineo_record_missing)
        with Inr show False by simp
      qed
      with Cons.prems have "d \<in> set ds" by simp
      from Cons.IH [OF this Cons.prems(2)] Some Inr show ?thesis by simp
    qed
  qed
qed

lemma label_loop_first_error:
  assumes "\<forall>x \<in> set ds. x ''id'' \<noteq> None" and "consistent mapping"
    and "d \<in> set ds" and "dict_get d ''dataProvider'' = PyNone"
  shows "label_loop ds mapping good bad payload = Inl ValueError"
  using assms
proof (induction ds arbitrary: good bad payload)
  case Nil
  then show ?case by simp
next
  case (Cons a ds)
  from Cons.prems(1) obtain i where i: "a ''id'' = Some i" by auto
  show ?case
  proof (cases "dict_get a ''dataProvider'' = PyNone")
    case True
    then have "priv_is_ineo_record a mapping = Inl ValueError"
      by (rule is_ineo_record_missing)
    with i show ?thesis by simp
  next
    case False
    with is_ineo_record_present [OF Cons.prems(2)]
    obtain b where b: "priv_is_ineo_record a mapping = Inr b"
      by blast
    from False Cons.prems have "d \<in> set ds" by auto
    with Cons.IH Cons.prems
    have "label_loop ds mapping (if b then good + 1 else good) (if b then bad else bad + 1)
            (payload @ [\<lparr>upd_id = i, ineo_record_set = b\<rparr>]) = Inl ValueError"
      by simp
    with i b show ?thesis by simp
  qed
qed

text \<open>Without a failing record the pass returns one update per record, in order.\<close>

lemma label_loop_length:
  "label_loop ds mapping good bad payload = Inr us \<Longrightarrow> length us = length payload + length ds"
proof (induction ds arbitrary: good bad payload)
  case Nil
  then show ?case by simp
next
  case (Cons a ds)
  then show ?case
    by (fastforce split: option.splits sum.splits)
qed

text \<open>
  C2, as amended. When the record set holds a record without \<^verbatim>\<open>dataProvider\<close>, the labeling
  pass raises and returns no update batch at all: no record is counted or included, the
  other records' updates are lost with it. When every record has an \<^verbatim>\<open>id\<close> and the
  registry is consistent, what it raises is the resolver's \<^verbatim>\<open>ValueError\<close>.
\<close>

theorem C2_missing_provider_aborts_pass:
  assumes "d \<in> set ds" and "dict_get d ''dataProvider'' = PyNone"
  shows "(\<exists>e. priv_label_ineo_records ds mapping = Inl e)
       \<and> ((\<forall>x \<in> set ds. x ''id'' \<noteq> None) \<and> consistent mapping
            \<longrightarrow> priv_label_ineo_records ds mapping = Inl ValueError)"
  using assms
  by (simp add: priv_label_ineo_records_def label_loop_raises label_loop_first_error)

theorem C2_missing_provider_aborts_pass_witness:
  "priv_label_ineo_records [doc_of_beta, doc_without_provider, doc_of_beta] example_registry
     = Inl ValueError"
  using C2_missing_provider_aborts_pass [of doc_without_provider
      "[doc_of_beta, doc_without_provider, doc_of_beta]" example_registry]
  by (simp add: example_consistent dict_get_def doc_without_provider_def doc_of_beta_def)

text \<open>
  C2 as stated fails: the record \<open>doc_of_beta\<close> alone yields its update, and the same record
  after a record without \<^verbatim>\<open>dataProvider\<close> yields no batch, the pass raises.
\<close>

theorem C2_no_local_recovery_counterexample:
  "priv_label_ineo_records [doc_of_beta] example_registry
     = Inr [\<lparr>upd_id = PyStr ''b'', ineo_record_set = True\<rparr>]
   \<and> priv_label_ineo_records [doc_without_provider, doc_of_beta] example_registry
     = Inl ValueError"
  by (simp add: priv_label_ineo_records_def priv_is_ineo_record_def dict_get_def py_in_def
        get_provider_def example_registry_def doc_without_provider_def doc_of_beta_def
        str_val_def int_val_def)

section \<open>Properties of the fetch\<close>

lemma range_from_25000: "range_from 0 25000 10000 = [0, 10000, 20000]"
  by (simp add: range_from.simps)

lemma extend_all_results:
  assumes "\<forall>f \<in> set fs. \<not> isl f"
  shows "extend_all fs records = Inr (records @ concat (map (\<lambda>f. docs (projr f)) fs))"
  using assms
proof (induction fs arbitrary: records)
  case Nil
  then show ?case by simp
next
  case (Cons f fs)
  then obtain r where "f = Inr r" by (cases f) auto
  with Cons show ?case by simp
qed

lemma mset_concat_perm:
  assumes "mset xs = mset ys"
  shows "mset (concat (map g xs)) = mset (concat (map g ys))"
proof -
  have "mset (concat (map g zs)) = sum_mset (image_mset (\<lambda>z. mset (g z)) (mset zs))" for zs
    by (induction zs) simp_all
  with assms show ?thesis by simp
qed

text \<open>When no page request fails, the merged records are the pages' documents, in some order.\<close>

lemma extend_all_completed:
  assumes perm: "mset cs = mset fs" and ok: "\<forall>f \<in> set fs. \<not> isl f"
  shows "\<exists>records. extend_all cs [] = Inr records
           \<and> mset records = mset (concat (map (\<lambda>f. docs (projr f)) fs))"
proof -
  from perm have "set cs = set fs" by (rule mset_eq_setD)
  with ok have "\<forall>f \<in> set cs. \<not> isl f" by simp
  then have "extend_all cs [] = Inr (concat (map (\<lambda>f. docs (projr f)) cs))"
    by (simp add: extend_all_results)
  moreover from perm
  have "mset (concat (map (\<lambda>f. docs (projr f)) cs))
          = mset (concat (map (\<lambda>f. docs (projr f)) fs))"
    by (rule mset_concat_perm)
  ultimately show ?thesis by simp
qed

text \<open>
  C8. Against an index that holds 25000 documents and answers every read with its full
  slice, whatever the order in which the pool completes the page requests:
  \<^verbatim>\<open>fetch_solr_records\<close> issues the zero-row query and then exactly three page requests,
  with \<open>(start, rows)\<close> = (0, 10000), (10000, 10000) and (20000, 10000), and returns the
  index's documents, each once, 25000 in all. The third request asks for 10000 rows from
  20000 on, of which the index holds [20000, 25000).
\<close>

theorem C8_pagination_25000:
  assumes held: "length held = 25000"
    and perm: "\<And>fs. mset (as_completed fs) = mset fs"
  shows "fst (fetch_solr_records (full_slice held) as_completed)
           = [(0, 0), (0, 10000), (10000, 10000), (20000, 10000)]
       \<and> (\<exists>records. snd (fetch_solr_records (full_slice held) as_completed) = Inr records
             \<and> mset records = mset held \<and> length records = 25000)"
proof -
  let ?p = "\<lambda>s. \<lparr>numFound = 25000, docs = take 10000 (drop s held)\<rparr>"
  let ?fs = "map (\<lambda>start. priv_fetch_solr_records (full_slice held) start 10000)
               (range_from 0 25000 10000)"
  have fs: "?fs = map Inr [?p 0, ?p 10000, ?p 20000]"
    by (simp add: range_from_25000 priv_fetch_solr_records_def full_slice_def held)
  have "mset (as_completed ?fs) = mset ?fs" by (rule perm)
  moreover have "\<forall>f \<in> set ?fs. \<not> isl f" by (simp add: fs)
  ultimately obtain records where r: "extend_all (as_completed ?fs) [] = Inr records"
    and "mset records = mset (concat (map (\<lambda>f. docs (projr f)) ?fs))"
    using extend_all_completed by blast
  then have m: "mset records = mset (concat (map docs [?p 0, ?p 10000, ?p 20000]))"
    by (simp add: fs)
  have "take 10000 held @ take 10000 (drop 10000 held) @ take 10000 (drop 20000 held) = held"
  proof -
    have "take 10000 (drop 20000 held) = drop 20000 held" using held by simp
    moreover have "take 10000 (drop 10000 held) @ drop 20000 held = drop 10000 held"
      by (metis add.commute append_take_drop_id drop_drop numeral_Bit0)
    ultimately show ?thesis by simp
  qed
  with m have m': "mset records = mset held" by simp
  then have "length records = length held" by (metis size_mset)
  with r m' held show ?thesis
    by (simp add: fetch_solr_records_def priv_fetch_solr_records_def full_slice_def Let_def
         range_from_25000)
qed

theorem C8_pagination_25000_witness:
  "length (replicate 25000 doc_of_beta) = 25000
   \<and> fst (fetch_solr_records (full_slice (replicate 25000 doc_of_beta)) rev)
       = [(0, 0), (0, 10000), (10000, 10000), (20000, 10000)]
   \<and> (\<exists>records. snd (fetch_solr_records (full_slice (replicate 25000 doc_of_beta)) rev)
                   = Inr records
         \<and> length records = 25000)"
proof -
  have h: "length (replicate 25000 doc_of_beta) = 25000" by simp
  have p: "mset (rev fs) = mset fs" for fs :: "(error + solr_response) list" by simp
  from C8_pagination_25000 [of "replicate 25000 doc_of_beta" rev, OF h p] h
  show ?thesis by blast
qed

section \<open>Properties of the sink\<close>

lemma fetch_one: "fetch_solr_records (full_slice [d]) (\<lambda>fs. fs) = ([(0, 0), (0, 10000)], Inr [d])"
  by (simp add: fetch_solr_records_def priv_fetch_solr_records_def full_slice_def Let_def
        range_from.simps)

lemma label_beta:
  "priv_label_ineo_records [doc_of_beta] example_registry
     = Inr [\<lparr>upd_id = PyStr ''b'', ineo_record_set = True\<rparr>]"
  by (simp add: priv_label_ineo_records_def priv_is_ineo_record_def dict_get_def py_in_def
        get_provider_def example_registry_def doc_of_beta_def str_val_def int_val_def)

text \<open>
  C3, as amended. When the fetch and the labeling pass succeed with the batch
  \<open>update_docs\<close>, \<^verbatim>\<open>label_ineo_records\<close> submits one update per decision of the batch,
  whichever of them the index refuses, and returns \<^verbatim>\<open>None\<close>: there is no aggregate outcome,
  and what it returns does not depend on how any update fared.
\<close>

theorem C3_updates_submitted_outcomes_unread:
  assumes "snd (fetch_solr_records index as_completed) = Inr fetched"
    and "priv_label_ineo_records fetched mapping = Inr update_docs"
  shows "label_ineo_records index as_completed post mapping = (update_docs, Inr ())"
  using assms by (simp add: label_ineo_records_def Let_def)

theorem C3_updates_submitted_outcomes_unread_witness:
  "label_ineo_records (full_slice [doc_of_beta]) (\<lambda>fs. fs) (\<lambda>u. False) example_registry
     = ([\<lparr>upd_id = PyStr ''b'', ineo_record_set = True\<rparr>], Inr ())"
  using C3_updates_submitted_outcomes_unread [of "full_slice [doc_of_beta]" "\<lambda>fs. fs"
      "[doc_of_beta]" example_registry _ "\<lambda>u. False"]
  by (simp add: fetch_one label_beta)

text \<open>
  C3 as stated fails: the index refuses the one update of the batch, the update raises,
  and \<^verbatim>\<open>label_ineo_records\<close> returns what it returns when the index accepts the update;
  the failure, its record id and its cause appear nowhere.
\<close>

theorem C3_failed_update_unobserved_counterexample:
  "update_solr_records (\<lambda>u. False) \<lparr>upd_id = PyStr ''b'', ineo_record_set = True\<rparr>
     = Inl HTTPError
   \<and> label_ineo_records (full_slice [doc_of_beta]) (\<lambda>fs. fs) (\<lambda>u. False) example_registry
     = ([\<lparr>upd_id = PyStr ''b'', ineo_record_set = True\<rparr>], Inr ())
   \<and> label_ineo_records (full_slice [doc_of_beta]) (\<lambda>fs. fs) (\<lambda>u. True) example_registry
     = ([\<lparr>upd_id = PyStr ''b'', ineo_record_set = True\<rparr>], Inr ())"
  by (simp add: update_solr_records_def label_ineo_records_def fetch_one label_beta Let_def)

section \<open>Properties of the mapping parser\<close>

lemma add_all_append:
  "add_all int_of registry (xs @ ys) =
    (case add_all int_of registry xs of Inl e \<Rightarrow> Inl e | Inr r \<Rightarrow> add_all int_of r ys)"
  by (induction xs arbitrary: registry) (auto split: sum.splits)

lemma add_provider_consistent:
  "consistent registry \<Longrightarrow> priv_add_provider int_of registry p = Inr r \<Longrightarrow> consistent r"
  by (auto simp: priv_add_provider_def consistent_def Let_def split: sum.splits option.splits)

lemma add_all_consistent:
  "consistent registry \<Longrightarrow> add_all int_of registry ps = Inr r \<Longrightarrow> consistent r"
  by (induction ps arbitrary: registry) (auto split: sum.splits dest: add_provider_consistent)

text \<open>Every registry the parser returns is consistent.\<close>

lemma parse_consistent:
  assumes "parse_mapping_file int_of t = Inr m"
  shows "consistent m"
proof -
  let ?r0 = "\<lparr>providers = [], provider_keys = [],
              global_default = (attrib t ''default'' = Some ''true'')\<rparr>"
  have c0: "consistent ?r0" by (simp add: consistent_def)
  from assms obtain r1 where r1: "add_all int_of ?r0 (findall t ''provider'') = Inr r1"
    and m: "add_all int_of r1 (findall t ''root'') = Inr m"
    by (auto simp: parse_mapping_file_def Let_def split: sum.splits)
  from c0 r1 have "consistent r1" by (rule add_all_consistent)
  from this m show ?thesis by (rule add_all_consistent)
qed

text \<open>The example document: the two providers come first, then the root.\<close>

lemma parse_example_tree:
  "parse_mapping_file example_int_of example_tree =
     Inr \<lparr>providers =
            [\<lparr>name = Some ''Acme'', profile = Some ''P1'', level = None, rule_default = None\<rparr>,
             \<lparr>name = Some ''Beta'', profile = None, level = Some 0,
              rule_default = Some False\<rparr>,
             \<lparr>name = Some ''Partners'', profile = None, level = None,
              rule_default = Some True\<rparr>],
          provider_keys = [Some ''Acme'', Some ''Beta'', Some ''Partners''],
          global_default = True\<rparr>"
  by (simp add: parse_mapping_file_def example_tree_def example_int_of_def findall_def
        find_elem_def priv_add_provider_def py_int_def py_or_def Let_def)

text \<open>
  C9. \<^verbatim>\<open>parse_mapping_file\<close> equals the function without its first loop, on every document
  and for every reading of \<^verbatim>\<open>int\<close>; and what it returns is what \<^verbatim>\<open>_add_provider\<close> builds from
  the root's \<^verbatim>\<open>default\<close> attribute over all \<open>provider\<close> children in document order followed
  by all \<open>root\<close> children in document order.
\<close>

theorem C9_first_loop_has_no_effect:
  "parse_mapping_file int_of mapping_tree = parse_mapping_file_without_scan int_of mapping_tree
   \<and> parse_mapping_file int_of mapping_tree
     = add_all int_of
         \<lparr>providers = [], provider_keys = [],
          global_default = (attrib mapping_tree ''default'' = Some ''true'')\<rparr>
         (findall mapping_tree ''provider'' @ findall mapping_tree ''root'')"
  by (simp add: parse_mapping_file_def parse_mapping_file_without_scan_def Let_def
        add_all_append)

end
